theory Spec2Isabelle
  imports Main
begin

section \<open>The implementors index of trait core::fmt::Debug\<close>

text \<open>
  The artifact \<^verbatim>\<open>trait.impl/core/fmt/trait.Debug.js\<close> is one immediately invoked function:
  it builds an object literal \<^verbatim>\<open>implementors\<close> and then either calls
  \<^verbatim>\<open>window.register_implementors\<close> with it or stores it in
  \<^verbatim>\<open>window.pending_implementors\<close>.
\<close>

subsection \<open>JavaScript values\<close>

text \<open>
  An entry of the index is a JavaScript array of strings, a crate's value an array of
  entries, and the index an object literal: its properties in the order written.
\<close>

type_synonym implementor_entry = "string list"

type_synonym implementor_map = "(string \<times> implementor_entry list) list"

text \<open>
  The values a property of the global object can hold, as far as the loader can tell them
  apart: it tests one for truthiness, calls one and stores one. A function value is a
  reference \<open>JFun f\<close> to a function of the host; an object is always truthy and never
  callable. Numbers are kept as the integers plus \<open>JNaN\<close>, the two kinds ToBoolean
  distinguishes (zero and NaN are falsy).
\<close>

datatype jsval =
    Undefined
  | Null
  | JBool bool
  | JNum int
  | JNaN
  | JStr string
  | JObj implementor_map
  | JFun nat

fun truthy :: "jsval \<Rightarrow> bool" where
  "truthy Undefined = False"
| "truthy Null = False"
| "truthy (JBool b) = b"
| "truthy (JNum n) = (n \<noteq> 0)"
| "truthy JNaN = False"
| "truthy (JStr s) = (s \<noteq> [])"
| "truthy (JObj m) = True"
| "truthy (JFun f) = True"

subsection \<open>The global object, effects and completions\<close>

type_synonym global_object = "string \<rightharpoonup> jsval"

text \<open>
  Properties of the global object are plain data properties: a read runs no getter, and
  reading a property that is not defined yields \<^verbatim>\<open>undefined\<close>.
\<close>

definition get_prop :: "global_object \<Rightarrow> string \<Rightarrow> jsval" where
  "get_prop w k = (case w k of None \<Rightarrow> Undefined | Some v \<Rightarrow> v)"

text \<open>
  What a statement of the loader does to the outside is logged in order: a call of a host
  function with its arguments, or a write of a property of the global object.
\<close>

datatype event = Invoke nat "jsval list" | Write string jsval

record world =
  window :: global_object
  trace :: "event list"

text \<open>
  A call of a non-callable value raises \<^verbatim>\<open>TypeError\<close>; a host function may throw any value.
  An abrupt completion keeps the state reached when the exception was raised.
\<close>

datatype exn = TypeError | Thrown jsval

datatype 'a completion = Normal 'a | Throw exn 'a

fun final :: "'a completion \<Rightarrow> 'a" where
  "final (Normal s) = s"
| "final (Throw e s) = s"

text \<open>
  The host gives every function reference its behaviour: from the arguments and the
  global object to the global object it leaves, returning or throwing. The value a call
  returns is not kept, since the loader discards it.
\<close>

type_synonym host = "nat \<Rightarrow> jsval list \<Rightarrow> global_object \<Rightarrow> global_object completion"

definition call :: "host \<Rightarrow> jsval \<Rightarrow> jsval list \<Rightarrow> world \<Rightarrow> world completion" where
  "call h f args s =
     (case f of
        JFun fid \<Rightarrow>
          (case h fid args (window s) of
             Normal w' \<Rightarrow> Normal \<lparr>window = w', trace = trace s @ [Invoke fid args]\<rparr>
           | Throw e w' \<Rightarrow> Throw e \<lparr>window = w', trace = trace s @ [Invoke fid args]\<rparr>)
      | _ \<Rightarrow> Throw TypeError s)"

text \<open>An assignment to a property of the global object defines or overwrites it.\<close>

definition assign :: "string \<Rightarrow> jsval \<Rightarrow> world \<Rightarrow> world completion" where
  "assign k v s = Normal \<lparr>window = (window s)(k \<mapsto> v), trace = trace s @ [Write k v]\<rparr>"

subsection \<open>The loader\<close>

text \<open>The object literal bound to \<^verbatim>\<open>implementors\<close>, with the escapes of the source resolved.\<close>

definition implementors :: implementor_map where
\<open>implementors = [
  (''mistralrs_core'', [
    [''impl <a class="trait" href="https://doc.rust-lang.org/1.76.0/core/fmt/trait.Debug.html" title="trait core::fmt::Debug">Debug</a> for <a class="struct" href="mistralrs_core/struct.SamplingParams.html" title="struct mistralrs_core::SamplingParams">SamplingParams</a>''],
    [''impl <a class="trait" href="https://doc.rust-lang.org/1.76.0/core/fmt/trait.Debug.html" title="trait core::fmt::Debug">Debug</a> for <a class="enum" href="mistralrs_core/enum.StopTokens.html" title="enum mistralrs_core::StopTokens">StopTokens</a>''],
    [''impl <a class="trait" href="https://doc.rust-lang.org/1.76.0/core/fmt/trait.Debug.html" title="trait core::fmt::Debug">Debug</a> for <a class="struct" href="mistralrs_core/struct.ChatCompletionResponse.html" title="struct mistralrs_core::ChatCompletionResponse">ChatCompletionResponse</a>''],
    [''impl <a class="trait" href="https://doc.rust-lang.org/1.76.0/core/fmt/trait.Debug.html" title="trait core::fmt::Debug">Debug</a> for <a class="struct" href="mistralrs_core/struct.Request.html" title="struct mistralrs_core::Request">Request</a>''],
    [''impl <a class="trait" href="https://doc.rust-lang.org/1.76.0/core/fmt/trait.Debug.html" title="trait core::fmt::Debug">Debug</a> for <a class="struct" href="mistralrs_core/struct.ChatCompletionUsage.html" title="struct mistralrs_core::ChatCompletionUsage">ChatCompletionUsage</a>'']]),
  (''mistralrs_lora'', [
    [''impl <a class="trait" href="https://doc.rust-lang.org/1.76.0/core/fmt/trait.Debug.html" title="trait core::fmt::Debug">Debug</a> for <a class="struct" href="mistralrs_lora/struct.QLoraLinear.html" title="struct mistralrs_lora::QLoraLinear">QLoraLinear</a>''],
    [''impl <a class="trait" href="https://doc.rust-lang.org/1.76.0/core/fmt/trait.Debug.html" title="trait core::fmt::Debug">Debug</a> for <a class="struct" href="mistralrs_lora/struct.LoraConfig.html" title="struct mistralrs_lora::LoraConfig">LoraConfig</a>''],
    [''impl <a class="trait" href="https://doc.rust-lang.org/1.76.0/core/fmt/trait.Debug.html" title="trait core::fmt::Debug">Debug</a> for <a class="struct" href="mistralrs_lora/struct.LoraLinearConfig.html" title="struct mistralrs_lora::LoraLinearConfig">LoraLinearConfig</a>''],
    [''impl <a class="trait" href="https://doc.rust-lang.org/1.76.0/core/fmt/trait.Debug.html" title="trait core::fmt::Debug">Debug</a> for <a class="struct" href="mistralrs_lora/struct.Ordering.html" title="struct mistralrs_lora::Ordering">Ordering</a>'']]),
  (''mistralrs_server'', [
    [''impl <a class="trait" href="https://doc.rust-lang.org/1.76.0/core/fmt/trait.Debug.html" title="trait core::fmt::Debug">Debug</a> for <a class="enum" href="mistralrs_server/openai/enum.StopTokens.html" title="enum mistralrs_server::openai::StopTokens">StopTokens</a>''],
    [''impl <a class="trait" href="https://doc.rust-lang.org/1.76.0/core/fmt/trait.Debug.html" title="trait core::fmt::Debug">Debug</a> for <a class="struct" href="mistralrs_server/openai/struct.Message.html" title="struct mistralrs_server::openai::Message">Message</a>''],
    [''impl <a class="trait" href="https://doc.rust-lang.org/1.76.0/core/fmt/trait.Debug.html" title="trait core::fmt::Debug">Debug</a> for <a class="enum" href="mistralrs_server/enum.ModelSelected.html" title="enum mistralrs_server::ModelSelected">ModelSelected</a>''],
    [''impl <a class="trait" href="https://doc.rust-lang.org/1.76.0/core/fmt/trait.Debug.html" title="trait core::fmt::Debug">Debug</a> for <a class="struct" href="mistralrs_server/openai/struct.ChatCompletionRequest.html" title="struct mistralrs_server::openai::ChatCompletionRequest">ChatCompletionRequest</a>'']])]\<close>

text \<open>
  The statement after the literal:
  \<^verbatim>\<open>if (window.register_implementors) {window.register_implementors(implementors);}
  else {window.pending_implementors = implementors;}\<close>
  with the variable \<^verbatim>\<open>implementors\<close> as a parameter.
\<close>

definition publish :: "host \<Rightarrow> implementor_map \<Rightarrow> world \<Rightarrow> world completion" where
  "publish h m s =
     (if truthy (get_prop (window s) ''register_implementors'')
      then call h (get_prop (window s) ''register_implementors'') [JObj m] s
      else assign ''pending_implementors'' (JObj m) s)"

text \<open>One load of the artifact: the function takes no argument and is called at once.\<close>

definition loader :: "host \<Rightarrow> world \<Rightarrow> world completion" where
  "loader h s = publish h implementors s"

text \<open>The events one run adds to the log of the world it started in.\<close>

definition emitted :: "world \<Rightarrow> world completion \<Rightarrow> event list" where
  "emitted s r = drop (length (trace s)) (trace (final r))"

text \<open>Only a function reference can be called.\<close>

definition callable :: "jsval \<Rightarrow> bool" where
  "callable v = (case v of JFun f \<Rightarrow> True | _ \<Rightarrow> False)"

text \<open>What an event carries: the arguments of a call, or the value written.\<close>

fun payload :: "event \<Rightarrow> jsval list" where
  "payload (Invoke f args) = args"
| "payload (Write k v) = [v]"

subsection \<open>Vocabulary for the entries of the index\<close>

primrec starts_with :: "string \<Rightarrow> string \<Rightarrow> bool" where
  "starts_with [] s = True"
| "starts_with (c # cs) s = (case s of [] \<Rightarrow> False | d # ds \<Rightarrow> c = d \<and> starts_with cs ds)"

definition ends_with :: "string \<Rightarrow> string \<Rightarrow> bool" where
  "ends_with p s = starts_with (rev p) (rev s)"

text \<open>
  The text every entry opens with: the implementation header and the link to the trait,
  up to the class of the link to the implementing type.
\<close>

definition debug_link :: string where
\<open>debug_link = ''impl <a class="trait" href="https://doc.rust-lang.org/1.76.0/core/fmt/trait.Debug.html" title="trait core::fmt::Debug">Debug</a> for <a class="''\<close>

text \<open>
  An entry string links the trait to a type of the crate: after the trait link comes a
  link, closed at the end of the string, to a struct or an enum page under the crate's
  directory.
\<close>

definition links_debug_to_type :: "string \<Rightarrow> string \<Rightarrow> bool" where
\<open>links_debug_to_type crate s =
   ((starts_with (debug_link @ ''struct" href="'' @ crate @ ''/'') s \<or>
     starts_with (debug_link @ ''enum" href="'' @ crate @ ''/'') s) \<and>
    ends_with ''</a>'' s)\<close>

subsection \<open>Example hosts\<close>

text \<open>A host whose functions return and leave the global object as it is.\<close>

definition returning_host :: host where
  "returning_host f args w = Normal w"

text \<open>A host whose functions throw.\<close>

definition throwing_host :: host where
  "throwing_host f args w = Throw (Thrown (JStr ''registrar failed'')) w"

section \<open>The two paths of the statement\<close>

lemma publish_immediate:
  assumes "get_prop (window s) ''register_implementors'' = JFun f"
  shows "publish h m s =
    (case h f [JObj m] (window s) of
       Normal w' \<Rightarrow> Normal \<lparr>window = w', trace = trace s @ [Invoke f [JObj m]]\<rparr>
     | Throw e w' \<Rightarrow> Throw e \<lparr>window = w', trace = trace s @ [Invoke f [JObj m]]\<rparr>)"
  using assms by (simp add: publish_def call_def)

lemma publish_deferred:
  assumes "\<not> truthy (get_prop (window s) ''register_implementors'')"
  shows "publish h m s =
    Normal \<lparr>window = (window s)(''pending_implementors'' \<mapsto> JObj m),
            trace = trace s @ [Write ''pending_implementors'' (JObj m)]\<rparr>"
  using assms by (simp add: publish_def assign_def)

lemma publish_not_callable:
  assumes "truthy (get_prop (window s) ''register_implementors'')"
    and "\<not> callable (get_prop (window s) ''register_implementors'')"
  shows "publish h m s = Throw TypeError s"
  using assms by (simp add: publish_def call_def callable_def split: jsval.splits)

lemma emitted_immediate:
  assumes "get_prop (window s) ''register_implementors'' = JFun f"
  shows "emitted s (publish h m s) = [Invoke f [JObj m]]"
  using assms by (simp add: publish_immediate emitted_def split: completion.splits)

lemma window_immediate:
  assumes "get_prop (window s) ''register_implementors'' = JFun f"
  shows "window (final (publish h m s)) = final (h f [JObj m] (window s))"
  using assms by (simp add: publish_immediate split: completion.splits)

lemma emitted_deferred:
  assumes "\<not> truthy (get_prop (window s) ''register_implementors'')"
  shows "emitted s (publish h m s) = [Write ''pending_implementors'' (JObj m)]"
  using assms by (simp add: publish_deferred emitted_def)

lemma emitted_not_callable:
  assumes "truthy (get_prop (window s) ''register_implementors'')"
    and "\<not> callable (get_prop (window s) ''register_implementors'')"
  shows "emitted s (publish h m s) = []"
  using assms by (simp add: publish_not_callable emitted_def)

lemma slot_cases:
  obtains (falsy) "\<not> truthy v"
  | (fn) f where "v = JFun f"
  | (other) "truthy v" "\<not> callable v"
  by (cases v) (auto simp: callable_def)

lemma emitted_payload:
  assumes "e \<in> set (emitted s (publish h m s))"
  shows "payload e = [JObj m]"
proof (cases "get_prop (window s) ''register_implementors''" rule: slot_cases)
  case falsy
  with assms show ?thesis by (simp add: emitted_deferred)
next
  case (fn f)
  with assms show ?thesis by (simp add: emitted_immediate)
next
  case other
  with assms show ?thesis by (simp add: emitted_not_callable)
qed

lemma emitted_at_most_one: "length (emitted s (publish h m s)) \<le> 1"
proof (cases "get_prop (window s) ''register_implementors''" rule: slot_cases)
  case falsy
  then show ?thesis by (simp add: emitted_deferred)
next
  case (fn f)
  then show ?thesis by (simp add: emitted_immediate)
next
  case other
  then show ?thesis by (simp add: emitted_not_callable)
qed

section \<open>Registrar present at load time\<close>

text \<open>
  C1: when the global \<^verbatim>\<open>register_implementors\<close> holds a function before the artifact runs,
  the load calls that function once, within the load, with exactly the map built at load
  time, and writes no property itself: the one event of the run is that call, and the
  global object after the load is the one the registrar left. The pending slot is
  therefore unmodified unless the registrar itself modifies it.
\<close>

theorem registrar_present_invoked_once:
  assumes "get_prop (window s) ''register_implementors'' = JFun f"
  shows "loader h s =
      (case h f [JObj implementors] (window s) of
         Normal w' \<Rightarrow>
           Normal \<lparr>window = w', trace = trace s @ [Invoke f [JObj implementors]]\<rparr>
       | Throw e w' \<Rightarrow>
           Throw e \<lparr>window = w', trace = trace s @ [Invoke f [JObj implementors]]\<rparr>)
    \<and> emitted s (loader h s) = [Invoke f [JObj implementors]]
    \<and> window (final (loader h s)) = final (h f [JObj implementors] (window s))
    \<and> (final (h f [JObj implementors] (window s)) ''pending_implementors''
          = window s ''pending_implementors'' \<longrightarrow>
        window (final (loader h s)) ''pending_implementors''
          = window s ''pending_implementors'')"
proof -
  have after: "window (final (loader h s)) = final (h f [JObj implementors] (window s))"
    unfolding loader_def using assms by (rule window_immediate)
  show ?thesis
    unfolding loader_def
    by (intro conjI publish_immediate emitted_immediate window_immediate assms)
      (simp add: after [unfolded loader_def])
qed

theorem registrar_present_invoked_once_witness:
  "get_prop (window \<lparr>window = [''register_implementors'' \<mapsto> JFun 0], trace = []\<rparr>)
      ''register_implementors'' = JFun 0
   \<and> loader returning_host \<lparr>window = [''register_implementors'' \<mapsto> JFun 0], trace = []\<rparr> =
       Normal \<lparr>window = [''register_implementors'' \<mapsto> JFun 0],
               trace = [Invoke 0 [JObj implementors]]\<rparr>
   \<and> window (final (loader returning_host
         \<lparr>window = [''register_implementors'' \<mapsto> JFun 0], trace = []\<rparr>))
       ''pending_implementors'' = None"
proof -
  let ?s = "\<lparr>window = [''register_implementors'' \<mapsto> JFun 0], trace = []\<rparr>"
  have h: "get_prop (window ?s) ''register_implementors'' = JFun 0"
    by (simp add: get_prop_def)
  show ?thesis
    using h registrar_present_invoked_once [OF h, of returning_host]
    by (simp add: returning_host_def)
qed

section \<open>Registrar absent at load time\<close>

text \<open>
  C2: when the global \<^verbatim>\<open>register_implementors\<close> is absent (reads as a falsy value), the load
  stores exactly the map built at load time in the global \<^verbatim>\<open>pending_implementors\<close> and
  calls no function, whatever else the global object holds: the only name under which a
  registration function is looked up is \<^verbatim>\<open>register_implementors\<close>.
\<close>

theorem registrar_absent_pending_written:
  assumes "\<not> truthy (get_prop (window s) ''register_implementors'')"
  shows "loader h s =
      Normal \<lparr>window = (window s)(''pending_implementors'' \<mapsto> JObj implementors),
              trace = trace s @ [Write ''pending_implementors'' (JObj implementors)]\<rparr>
    \<and> emitted s (loader h s) = [Write ''pending_implementors'' (JObj implementors)]
    \<and> window (final (loader h s)) ''pending_implementors'' = Some (JObj implementors)"
  unfolding loader_def
  by (intro conjI publish_deferred emitted_deferred assms)
    (simp add: publish_deferred assms)

theorem registrar_absent_pending_written_witness:
  "\<not> truthy (get_prop (window \<lparr>window = [''register_impls'' \<mapsto> JFun 7], trace = []\<rparr>)
        ''register_implementors'')
   \<and> loader returning_host \<lparr>window = [''register_impls'' \<mapsto> JFun 7], trace = []\<rparr> =
       Normal \<lparr>window = [''register_impls'' \<mapsto> JFun 7,
                         ''pending_implementors'' \<mapsto> JObj implementors],
               trace = [Write ''pending_implementors'' (JObj implementors)]\<rparr>"
proof -
  let ?s = "\<lparr>window = [''register_impls'' \<mapsto> JFun 7], trace = []\<rparr>"
  have h: "\<not> truthy (get_prop (window ?s) ''register_implementors'')"
    by (simp add: get_prop_def)
  show ?thesis
    using h registrar_absent_pending_written [OF h, of returning_host]
    by simp
qed

section \<open>How many effects a run has\<close>

text \<open>
  The statement "every run either invokes the registrar or writes the pending slot" fails
  when \<^verbatim>\<open>window.register_implementors\<close> holds a truthy value that is not a function, here the
  number 1: the test succeeds, the call raises \<^verbatim>\<open>TypeError\<close>, and the run has done neither.
\<close>

theorem exactly_one_effect_counterexample:
  "loader returning_host \<lparr>window = [''register_implementors'' \<mapsto> JNum 1], trace = []\<rparr> =
     Throw TypeError \<lparr>window = [''register_implementors'' \<mapsto> JNum 1], trace = []\<rparr>
   \<and> emitted \<lparr>window = [''register_implementors'' \<mapsto> JNum 1], trace = []\<rparr>
       (loader returning_host \<lparr>window = [''register_implementors'' \<mapsto> JNum 1], trace = []\<rparr>)
     = []"
  by (simp add: loader_def publish_def call_def get_prop_def emitted_def)

text \<open>
  C3, as the code has it: every run affects at most one of the two locations and never both.
  It is exactly one when the registrar slot is falsy (the pending slot is written, and
  every other property keeps its value) or holds a function (it is invoked, and the global
  object after the run is the one the function left). When the slot holds a truthy value
  that is not a function, the call attempt raises \<^verbatim>\<open>TypeError\<close> and the loader has changed
  nothing.
\<close>

theorem at_most_one_effect:
  "length (emitted s (loader h s)) \<le> 1
   \<and> (\<not> truthy (get_prop (window s) ''register_implementors'') \<longrightarrow>
        emitted s (loader h s) = [Write ''pending_implementors'' (JObj implementors)]
        \<and> (\<forall>k. k \<noteq> ''pending_implementors'' \<longrightarrow> window (final (loader h s)) k = window s k))
   \<and> (\<forall>f. get_prop (window s) ''register_implementors'' = JFun f \<longrightarrow>
        emitted s (loader h s) = [Invoke f [JObj implementors]]
        \<and> window (final (loader h s)) = final (h f [JObj implementors] (window s)))
   \<and> (truthy (get_prop (window s) ''register_implementors'')
        \<and> \<not> callable (get_prop (window s) ''register_implementors'') \<longrightarrow>
        loader h s = Throw TypeError s \<and> emitted s (loader h s) = [])"
  unfolding loader_def
  by (intro conjI impI allI emitted_at_most_one emitted_deferred emitted_immediate
      window_immediate publish_not_callable emitted_not_callable)
    (simp_all add: publish_deferred)

theorem at_most_one_effect_witness:
  "emitted \<lparr>window = Map.empty, trace = []\<rparr> (loader returning_host \<lparr>window = Map.empty, trace = []\<rparr>)
     = [Write ''pending_implementors'' (JObj implementors)]
   \<and> window (final (loader returning_host \<lparr>window = Map.empty, trace = []\<rparr>)) ''other'' = None
   \<and> emitted \<lparr>window = [''register_implementors'' \<mapsto> JFun 3], trace = []\<rparr>
        (loader returning_host \<lparr>window = [''register_implementors'' \<mapsto> JFun 3], trace = []\<rparr>)
     = [Invoke 3 [JObj implementors]]
   \<and> loader returning_host \<lparr>window = [''register_implementors'' \<mapsto> JStr ''soon''], trace = []\<rparr>
     = Throw TypeError \<lparr>window = [''register_implementors'' \<mapsto> JStr ''soon''], trace = []\<rparr>"
  using at_most_one_effect [of "\<lparr>window = Map.empty, trace = []\<rparr>" returning_host]
    at_most_one_effect [of "\<lparr>window = [''register_implementors'' \<mapsto> JFun 3], trace = []\<rparr>"
      returning_host]
    at_most_one_effect [of "\<lparr>window = [''register_implementors'' \<mapsto> JStr ''soon''], trace = []\<rparr>"
      returning_host]
  by (simp add: get_prop_def callable_def)

section \<open>Two loads in a row\<close>

text \<open>
  C4: two loads one after the other, with maps \<open>M1\<close> then \<open>M2\<close> and no registrar present,
  both complete, and the pending slot then holds \<open>M2\<close> alone: the second write replaces
  the first, nothing of \<open>M1\<close> is merged in. The first load leaves the registrar slot as
  it was, so the second finds no registrar either.
\<close>

theorem second_load_overwrites:
  assumes "\<not> truthy (get_prop (window s) ''register_implementors'')"
  shows "\<exists>s1 s2. publish h M1 s = Normal s1 \<and> publish h M2 s1 = Normal s2
      \<and> window s2 = (window s)(''pending_implementors'' \<mapsto> JObj M2)
      \<and> window s2 ''pending_implementors'' = Some (JObj M2)
      \<and> trace s2 = trace s @ [Write ''pending_implementors'' (JObj M1),
                               Write ''pending_implementors'' (JObj M2)]"
proof -
  let ?s1 = "\<lparr>window = (window s)(''pending_implementors'' \<mapsto> JObj M1),
               trace = trace s @ [Write ''pending_implementors'' (JObj M1)]\<rparr>"
  have first: "publish h M1 s = Normal ?s1"
    using assms by (rule publish_deferred)
  have "get_prop (window ?s1) ''register_implementors''
      = get_prop (window s) ''register_implementors''"
    by (simp add: get_prop_def)
  with assms have "\<not> truthy (get_prop (window ?s1) ''register_implementors'')"
    by simp
  then have second: "publish h M2 ?s1 =
      Normal \<lparr>window = (window ?s1)(''pending_implementors'' \<mapsto> JObj M2),
              trace = trace ?s1 @ [Write ''pending_implementors'' (JObj M2)]\<rparr>"
    by (rule publish_deferred)
  show ?thesis
    using first second by simp
qed

theorem second_load_overwrites_witness:
  "\<not> truthy (get_prop (window \<lparr>window = Map.empty, trace = []\<rparr>) ''register_implementors'')
   \<and> (\<exists>s1 s2.
        publish returning_host [(''libA'', [[''entry1'']])] \<lparr>window = Map.empty, trace = []\<rparr>
          = Normal s1
        \<and> publish returning_host [(''libB'', [[''entry2''], [''entry3'']])] s1 = Normal s2
        \<and> window s2 ''pending_implementors''
          = Some (JObj [(''libB'', [[''entry2''], [''entry3'']])]))"
proof -
  let ?s = "\<lparr>window = Map.empty, trace = []\<rparr>"
  have h: "\<not> truthy (get_prop (window ?s) ''register_implementors'')"
    by (simp add: get_prop_def)
  show ?thesis
    using h second_load_overwrites [OF h, of returning_host
        "[(''libA'', [[''entry1'']])]" "[(''libB'', [[''entry2''], [''entry3'']])]"]
    by blast
qed

section \<open>Errors\<close>

text \<open>
  The statement "for every state of the registrar slot the load completes without error"
  fails twice: a registrar that throws makes the load throw, and a truthy value that is
  not a function, here a string, makes the call raise \<^verbatim>\<open>TypeError\<close>.
\<close>

theorem no_error_counterexample:
  "loader throwing_host \<lparr>window = [''register_implementors'' \<mapsto> JFun 0], trace = []\<rparr> =
     Throw (Thrown (JStr ''registrar failed''))
       \<lparr>window = [''register_implementors'' \<mapsto> JFun 0],
        trace = [Invoke 0 [JObj implementors]]\<rparr>
   \<and> loader returning_host \<lparr>window = [''register_implementors'' \<mapsto> JStr ''later''], trace = []\<rparr> =
     Throw TypeError \<lparr>window = [''register_implementors'' \<mapsto> JStr ''later''], trace = []\<rparr>"
  by (simp add: loader_def publish_def call_def get_prop_def throwing_host_def)

text \<open>
  C5, as the code has it: the loader raises no error of its own on the deferred path, and
  the absence of a registrar is not a failure: with the registrar slot undefined the load
  completes normally. In general the load completes normally exactly when the slot is
  falsy, or holds a function whose call with the map returns normally; an exception of the
  registrar and the \<^verbatim>\<open>TypeError\<close> of calling a non-function are not caught.
\<close>

theorem loader_completes_normally_iff:
  "(window s ''register_implementors'' = None \<longrightarrow> (\<exists>s'. loader h s = Normal s'))
   \<and> ((\<exists>s'. loader h s = Normal s') \<longleftrightarrow>
        (\<not> truthy (get_prop (window s) ''register_implementors'')
         \<or> (\<exists>f w'. get_prop (window s) ''register_implementors'' = JFun f
               \<and> h f [JObj implementors] (window s) = Normal w')))"
proof (intro conjI impI)
  assume "window s ''register_implementors'' = None"
  then have "\<not> truthy (get_prop (window s) ''register_implementors'')"
    by (simp add: get_prop_def)
  then show "\<exists>s'. loader h s = Normal s'"
    by (simp add: loader_def publish_deferred)
next
  show "(\<exists>s'. loader h s = Normal s') \<longleftrightarrow>
        (\<not> truthy (get_prop (window s) ''register_implementors'')
         \<or> (\<exists>f w'. get_prop (window s) ''register_implementors'' = JFun f
               \<and> h f [JObj implementors] (window s) = Normal w'))"
  proof (cases "get_prop (window s) ''register_implementors''" rule: slot_cases)
    case falsy
    then show ?thesis by (simp add: loader_def publish_deferred)
  next
    case (fn f)
    then show ?thesis
      by (simp add: loader_def publish_immediate split: completion.splits)
  next
    case other
    then show ?thesis
      by (auto simp: loader_def publish_not_callable callable_def)
  qed
qed

theorem loader_completes_normally_iff_witness:
  "window \<lparr>window = Map.empty, trace = []\<rparr> ''register_implementors'' = None
   \<and> (\<exists>s'. loader throwing_host \<lparr>window = Map.empty, trace = []\<rparr> = Normal s')
   \<and> (\<exists>s'. loader returning_host \<lparr>window = [''register_implementors'' \<mapsto> JFun 0], trace = []\<rparr>
          = Normal s')"
  using loader_completes_normally_iff [of "\<lparr>window = Map.empty, trace = []\<rparr>" throwing_host]
    loader_completes_normally_iff
      [of "\<lparr>window = [''register_implementors'' \<mapsto> JFun 0], trace = []\<rparr>" returning_host]
  by (simp add: get_prop_def returning_host_def)

section \<open>The map and its hand-off\<close>

text \<open>
  The statement "the map is handed off exactly once" fails when
  \<^verbatim>\<open>window.register_implementors\<close> is \<^verbatim>\<open>true\<close>: the call raises \<^verbatim>\<open>TypeError\<close> before any function
  receives the map, and the pending slot stays undefined.
\<close>

theorem handed_off_once_counterexample:
  "emitted \<lparr>window = [''register_implementors'' \<mapsto> JBool True], trace = []\<rparr>
     (loader returning_host \<lparr>window = [''register_implementors'' \<mapsto> JBool True], trace = []\<rparr>)
     = []
   \<and> window (final (loader returning_host
        \<lparr>window = [''register_implementors'' \<mapsto> JBool True], trace = []\<rparr>))
       ''pending_implementors'' = None"
  by (simp add: loader_def publish_def call_def get_prop_def emitted_def)

text \<open>
  C6, as the code has it: a load builds the map once, from the literal, and never changes
  it: whatever the run hands off is exactly the literal, with no entry added, removed or
  edited. The map is handed off at most once, and exactly once when the registrar slot is
  falsy (through the pending slot) or holds a function (through the call).
\<close>

theorem map_handed_off_at_most_once:
  "(\<forall>e \<in> set (emitted s (loader h s)). payload e = [JObj implementors])
   \<and> length (emitted s (loader h s)) \<le> 1
   \<and> (\<not> truthy (get_prop (window s) ''register_implementors'')
        \<or> callable (get_prop (window s) ''register_implementors'') \<longrightarrow>
        length (emitted s (loader h s)) = 1)"
proof (intro conjI ballI impI)
  fix e assume "e \<in> set (emitted s (loader h s))"
  then show "payload e = [JObj implementors]"
    unfolding loader_def by (rule emitted_payload)
next
  show "length (emitted s (loader h s)) \<le> 1"
    unfolding loader_def by (rule emitted_at_most_one)
next
  assume "\<not> truthy (get_prop (window s) ''register_implementors'')
        \<or> callable (get_prop (window s) ''register_implementors'')"
  then show "length (emitted s (loader h s)) = 1"
    by (cases "get_prop (window s) ''register_implementors''" rule: slot_cases)
      (simp_all add: loader_def emitted_deferred emitted_immediate)
qed

theorem map_handed_off_at_most_once_witness:
  "payload (hd (emitted \<lparr>window = Map.empty, trace = []\<rparr>
        (loader returning_host \<lparr>window = Map.empty, trace = []\<rparr>))) = [JObj implementors]
   \<and> length (emitted \<lparr>window = Map.empty, trace = []\<rparr>
        (loader returning_host \<lparr>window = Map.empty, trace = []\<rparr>)) = 1
   \<and> length (emitted \<lparr>window = [''register_implementors'' \<mapsto> JFun 2], trace = []\<rparr>
        (loader throwing_host \<lparr>window = [''register_implementors'' \<mapsto> JFun 2], trace = []\<rparr>)) = 1"
  using map_handed_off_at_most_once [of "\<lparr>window = Map.empty, trace = []\<rparr>" returning_host]
    map_handed_off_at_most_once
      [of "\<lparr>window = [''register_implementors'' \<mapsto> JFun 2], trace = []\<rparr>" throwing_host]
  by (auto simp: get_prop_def callable_def length_Suc_conv)

text \<open>
  C7: the loader has no parameter for the map, and what it publishes is the literal: in
  any two runs, under any hosts and from any worlds, every value handed to a registrar or
  stored in the pending slot is the same value, the map \<open>implementors\<close>.
\<close>

theorem published_value_fixed:
  "\<forall>e1 \<in> set (emitted s1 (loader h1 s1)). \<forall>e2 \<in> set (emitted s2 (loader h2 s2)).
     payload e1 = [JObj implementors] \<and> payload e2 = payload e1"
  unfolding loader_def by (simp add: emitted_payload)

theorem published_value_fixed_witness:
  "emitted \<lparr>window = [''register_implementors'' \<mapsto> JFun 0], trace = []\<rparr>
      (loader returning_host \<lparr>window = [''register_implementors'' \<mapsto> JFun 0], trace = []\<rparr>)
     = [Invoke 0 [JObj implementors]]
   \<and> emitted \<lparr>window = [''pending_implementors'' \<mapsto> JStr ''stale''], trace = []\<rparr>
      (loader throwing_host \<lparr>window = [''pending_implementors'' \<mapsto> JStr ''stale''], trace = []\<rparr>)
     = [Write ''pending_implementors'' (JObj implementors)]
   \<and> payload (Write ''pending_implementors'' (JObj implementors))
     = payload (Invoke 0 [JObj implementors])"
proof -
  let ?a = "\<lparr>window = [''register_implementors'' \<mapsto> JFun 0], trace = []\<rparr>"
  let ?b = "\<lparr>window = [''pending_implementors'' \<mapsto> JStr ''stale''], trace = []\<rparr>"
  have a: "emitted ?a (loader returning_host ?a) = [Invoke 0 [JObj implementors]]"
    by (simp add: loader_def emitted_immediate get_prop_def)
  have b: "emitted ?b (loader throwing_host ?b)
      = [Write ''pending_implementors'' (JObj implementors)]"
    by (simp add: loader_def emitted_deferred get_prop_def)
  from published_value_fixed [of ?a returning_host ?b throwing_host]
  have "payload (Write ''pending_implementors'' (JObj implementors))
      = payload (Invoke 0 [JObj implementors])"
    unfolding a b by simp
  with a b show ?thesis by blast
qed

section \<open>The literal\<close>

lemma implementors_keys:
  "map fst implementors = [''mistralrs_core'', ''mistralrs_lora'', ''mistralrs_server'']"
  by (simp add: implementors_def)

lemma implementors_sizes: "map (\<lambda>(crate, es). length es) implementors = [5, 4, 4]"
  by (simp add: implementors_def)

lemma implementors_entries:
  "list_all (\<lambda>(crate, es).
      list_all (\<lambda>e. length e = 1 \<and> list_all (links_debug_to_type crate) e) es)
    implementors"
  by code_simp

text \<open>
  C8: the map built at load time has exactly the three keys \<^verbatim>\<open>mistralrs_core\<close>,
  \<^verbatim>\<open>mistralrs_lora\<close> and \<^verbatim>\<open>mistralrs_server\<close>, with 5, 4 and 4 entries; every entry is a list of
  one string, and the string links the trait \<^verbatim>\<open>core::fmt::Debug\<close> to a struct or an enum of
  the crate it is listed under.
\<close>

theorem implementors_shape:
  "map fst implementors = [''mistralrs_core'', ''mistralrs_lora'', ''mistralrs_server'']
   \<and> map (\<lambda>(crate, es). length es) implementors = [5, 4, 4]
   \<and> list_all (\<lambda>(crate, es).
        list_all (\<lambda>e. length e = 1 \<and> list_all (links_debug_to_type crate) e) es)
        implementors"
  by (intro conjI implementors_keys implementors_sizes implementors_entries)

section \<open>The test is for truthiness\<close>

text \<open>
  C9: the loader tests the value of \<^verbatim>\<open>window.register_implementors\<close>, not whether the property
  exists: when the property is bound to a falsy value (\<^verbatim>\<open>null\<close>, \<^verbatim>\<open>undefined\<close>, \<^verbatim>\<open>0\<close> and
  \<^verbatim>\<open>false\<close> are such), the load takes the deferred path, writes the pending slot and calls
  nothing.
\<close>

theorem falsy_registrar_takes_deferred_path:
  assumes "window s ''register_implementors'' = Some v" and "\<not> truthy v"
  shows "loader h s =
      Normal \<lparr>window = (window s)(''pending_implementors'' \<mapsto> JObj implementors),
              trace = trace s @ [Write ''pending_implementors'' (JObj implementors)]\<rparr>
    \<and> (\<forall>g args. Invoke g args \<notin> set (emitted s (loader h s)))
    \<and> \<not> truthy Null \<and> \<not> truthy Undefined \<and> \<not> truthy (JNum 0) \<and> \<not> truthy (JBool False)"
proof -
  from assms have falsy: "\<not> truthy (get_prop (window s) ''register_implementors'')"
    by (simp add: get_prop_def)
  have run: "loader h s =
      Normal \<lparr>window = (window s)(''pending_implementors'' \<mapsto> JObj implementors),
              trace = trace s @ [Write ''pending_implementors'' (JObj implementors)]\<rparr>"
    unfolding loader_def using falsy by (rule publish_deferred)
  have "emitted s (loader h s) = [Write ''pending_implementors'' (JObj implementors)]"
    unfolding loader_def using falsy by (rule emitted_deferred)
  then have "\<forall>g args. Invoke g args \<notin> set (emitted s (loader h s))"
    by simp
  with run show ?thesis by simp
qed

theorem falsy_registrar_takes_deferred_path_witness:
  "loader returning_host \<lparr>window = [''register_implementors'' \<mapsto> Null], trace = []\<rparr> =
     Normal \<lparr>window = [''register_implementors'' \<mapsto> Null,
                       ''pending_implementors'' \<mapsto> JObj implementors],
             trace = [Write ''pending_implementors'' (JObj implementors)]\<rparr>
   \<and> loader returning_host \<lparr>window = [''register_implementors'' \<mapsto> Undefined], trace = []\<rparr> =
     Normal \<lparr>window = [''register_implementors'' \<mapsto> Undefined,
                       ''pending_implementors'' \<mapsto> JObj implementors],
             trace = [Write ''pending_implementors'' (JObj implementors)]\<rparr>
   \<and> loader returning_host \<lparr>window = [''register_implementors'' \<mapsto> JNum 0], trace = []\<rparr> =
     Normal \<lparr>window = [''register_implementors'' \<mapsto> JNum 0,
                       ''pending_implementors'' \<mapsto> JObj implementors],
             trace = [Write ''pending_implementors'' (JObj implementors)]\<rparr>
   \<and> loader returning_host \<lparr>window = [''register_implementors'' \<mapsto> JBool False], trace = []\<rparr> =
     Normal \<lparr>window = [''register_implementors'' \<mapsto> JBool False,
                       ''pending_implementors'' \<mapsto> JObj implementors],
             trace = [Write ''pending_implementors'' (JObj implementors)]\<rparr>"
  using
    falsy_registrar_takes_deferred_path
      [of "\<lparr>window = [''register_implementors'' \<mapsto> Null], trace = []\<rparr>" Null returning_host]
    falsy_registrar_takes_deferred_path
      [of "\<lparr>window = [''register_implementors'' \<mapsto> Undefined], trace = []\<rparr>" Undefined
        returning_host]
    falsy_registrar_takes_deferred_path
      [of "\<lparr>window = [''register_implementors'' \<mapsto> JNum 0], trace = []\<rparr>" "JNum 0"
        returning_host]
    falsy_registrar_takes_deferred_path
      [of "\<lparr>window = [''register_implementors'' \<mapsto> JBool False], trace = []\<rparr>" "JBool False"
        returning_host]
  by simp

section \<open>A registrar that throws\<close>

text \<open>
  C10: when the registrar is present and its call throws, the load throws the same
  exception; the loader does not fall back to the deferred path, so it writes no pending
  slot, and the global object is left exactly as the registrar left it.
\<close>

theorem registrar_exception_propagates:
  assumes "get_prop (window s) ''register_implementors'' = JFun f"
    and "h f [JObj implementors] (window s) = Throw e w'"
  shows "loader h s =
      Throw e \<lparr>window = w', trace = trace s @ [Invoke f [JObj implementors]]\<rparr>
    \<and> (\<forall>v. Write ''pending_implementors'' v \<notin> set (emitted s (loader h s)))
    \<and> window (final (loader h s)) = w'"
proof -
  have run: "loader h s =
      Throw e \<lparr>window = w', trace = trace s @ [Invoke f [JObj implementors]]\<rparr>"
    using assms by (simp add: loader_def publish_immediate)
  have "emitted s (loader h s) = [Invoke f [JObj implementors]]"
    unfolding loader_def using assms(1) by (rule emitted_immediate)
  then have "\<forall>v. Write ''pending_implementors'' v \<notin> set (emitted s (loader h s))"
    by simp
  with run show ?thesis by simp
qed

theorem registrar_exception_propagates_witness:
  "get_prop (window \<lparr>window = [''register_implementors'' \<mapsto> JFun 0], trace = []\<rparr>)
      ''register_implementors'' = JFun 0
   \<and> throwing_host 0 [JObj implementors] [''register_implementors'' \<mapsto> JFun 0]
     = Throw (Thrown (JStr ''registrar failed'')) [''register_implementors'' \<mapsto> JFun 0]
   \<and> loader throwing_host \<lparr>window = [''register_implementors'' \<mapsto> JFun 0], trace = []\<rparr> =
     Throw (Thrown (JStr ''registrar failed''))
       \<lparr>window = [''register_implementors'' \<mapsto> JFun 0],
        trace = [Invoke 0 [JObj implementors]]\<rparr>
   \<and> window (final (loader throwing_host
        \<lparr>window = [''register_implementors'' \<mapsto> JFun 0], trace = []\<rparr>))
       ''pending_implementors'' = None"
proof -
  let ?s = "\<lparr>window = [''register_implementors'' \<mapsto> JFun 0], trace = []\<rparr>"
  have a: "get_prop (window ?s) ''register_implementors'' = JFun 0"
    by (simp add: get_prop_def)
  have b: "throwing_host 0 [JObj implementors] (window ?s)
      = Throw (Thrown (JStr ''registrar failed'')) [''register_implementors'' \<mapsto> JFun 0]"
    by (simp add: throwing_host_def)
  show ?thesis
    using a b
      registrar_exception_propagates
        [of ?s 0 throwing_host "Thrown (JStr ''registrar failed'')"
          "[''register_implementors'' \<mapsto> JFun 0]"]
    by simp
qed

end
